theory Spec2Isabelle
  imports Complex_Main
begin

section \<open>Data model of the multi-chat screen\<close>

text \<open>
  The interfaces \<open>Message\<close>, \<open>Attachment\<close> and \<open>ModelConfig\<close> of the
  multi-chat component, and the anonymous conversation type
  \<open>{ id; title; messages }\<close> of its \<open>chats\<close> state. A field the interface marks
  optional (\<open>attachments?\<close>, \<open>dataUrl?\<close>, \<open>textPreview?\<close>, \<open>size?\<close>,
  \<open>maxTokens?\<close>) is an \<open>option\<close>, with \<open>None\<close> for \<open>undefined\<close>. A
  \<open>char\<close> stands for one code unit below 256 of a JavaScript string.
\<close>

datatype role = System | User | Assistant

datatype attachmentType = Image | File

record attachment =
  att_id :: string
  att_name :: string
  att_type :: attachmentType
  mime :: string
  dataUrl :: "string option"
  textPreview :: "string option"
  att_size :: "int option"

record message =
  msg_id :: string
  role :: role
  content :: string
  timestamp :: int
  attachments :: "attachment list option"

record chat =
  chat_id :: string
  title :: string
  messages :: "message list"

record modelConfig =
  apiKey :: string
  selectedModel :: string
  baseUrl :: string
  temperature :: rat
  maxTokens :: "int option"

datatype assistantStyle = Default | Claude | ChatGPT | Qwen

text \<open>An \<open>AbortController\<close> object, identified by the number of its allocation.\<close>

datatype controller = Controller nat

subsection \<open>The request payload\<close>

text \<open>
  The object \<open>buildPayload\<close> returns: a \<open>content\<close> is either a plain string or an
  array of parts \<open>{ type: "text", text }\<close> and \<open>{ type: "image_url", image_url }\<close>.
\<close>

datatype part = TextPart string | ImageUrlPart string

datatype contentValue = Plain string | Parts "part list"

record payloadMessage =
  pm_role :: role
  pm_content :: contentValue

record payload =
  p_model :: string
  p_messages :: "payloadMessage list"
  p_temperature :: rat
  p_max_tokens :: "int option"
  p_stream :: bool

text \<open>One call of \<open>fetch\<close>: the URL, the bearer token and the JSON body.\<close>

record request =
  url :: string
  bearer :: string
  body :: payload

subsection \<open>The component state\<close>

text \<open>
  The \<open>useState\<close> and \<open>useRef\<close> cells of the component the handlers read and
  write. Three further fields record the effects that leave the component:
  \<open>requests\<close> the calls of \<open>fetch\<close>, \<open>alerts\<close> the calls of \<open>alert\<close>,
  \<open>console\<close> the calls of \<open>console.error\<close>, \<open>aborted\<close> the controllers whose
  \<open>abort()\<close> was called, each in order.
\<close>

record state =
  chats :: "chat list"
  activeChatId :: "string option"
  assistantStyle :: assistantStyle
  customSystemPrompt :: string
  modelConfig :: modelConfig
  isStreaming :: bool
  abortRef :: "controller option"
  inputMessage :: string
  composerAttachments :: "attachment list"
  requests :: "request list"
  alerts :: "string list"
  console :: "string list"
  aborted :: "controller list"

text \<open>
  \<open>activeChat\<close>: \<open>chats.find(c => c.id === activeChatId)\<close>, \<open>None\<close> where
  \<open>find\<close> returns \<open>undefined\<close>.
\<close>

definition activeChat :: "state \<Rightarrow> chat option" where
  "activeChat st = find (\<lambda>c. Some (chat_id c) = activeChatId st) (chats st)"

section \<open>Chat management\<close>

text \<open>
  \<open>newChat\<close> and \<open>deleteChat\<close>. The identifier \<open>uuid()\<close> returns is an argument.
  In \<open>deleteChat\<close> the test \<open>chats.length > 1\<close> and the search for the next active
  chat read the list as it was before the removal.
\<close>

definition newChat :: "string \<Rightarrow> state \<Rightarrow> state" where
  "newChat uid st =
     st\<lparr>chats := \<lparr>chat_id = uid, title = ''New Chat'', messages = []\<rparr> # chats st,
        activeChatId := Some uid,
        inputMessage := [],
        composerAttachments := []\<rparr>"

definition deleteChat :: "string \<Rightarrow> state \<Rightarrow> state" where
  "deleteChat cid st =
     (let st1 = st\<lparr>chats := filter (\<lambda>c. chat_id c \<noteq> cid) (chats st)\<rparr>
      in if Some cid = activeChatId st \<and> length (chats st) > 1
         then (case find (\<lambda>c. chat_id c \<noteq> cid) (chats st) of
                 Some c \<Rightarrow> st1\<lparr>activeChatId := Some (chat_id c)\<rparr>
               | None \<Rightarrow> st1)
         else st1)"

section \<open>Strings\<close>

text \<open>
  The white space of \<open>String.prototype.trim\<close> and of the regular expression class
  \<open>\s\<close>, and the line terminators the class \<open>.\<close> excludes, among the code units
  below 256.
\<close>

definition isSpace :: "char \<Rightarrow> bool" where
  "isSpace c = (c = CHR 0x09 \<or> c = CHR 0x0A \<or> c = CHR 0x0B \<or> c = CHR 0x0C
              \<or> c = CHR 0x0D \<or> c = CHR 0x20 \<or> c = CHR 0xA0)"

definition isLineTerminator :: "char \<Rightarrow> bool" where
  "isLineTerminator c = (c = CHR 0x0A \<or> c = CHR 0x0D)"

definition trim :: "string \<Rightarrow> string" where
  "trim s = rev (dropWhile isSpace (rev (dropWhile isSpace s)))"

text \<open>\<open>s.split("\n")\<close>: the pieces between line feeds; the empty string gives one empty piece.\<close>

fun split_nl :: "string \<Rightarrow> string list" where
  "split_nl [] = [[]]"
| "split_nl (c # cs) =
     (if c = CHR 0x0A then [] # split_nl cs
      else (case split_nl cs of
              [] \<Rightarrow> [[c]]
            | l # ls \<Rightarrow> (c # l) # ls))"

text \<open>The decimal digits of a number, as template literals print a status code.\<close>

fun showNat :: "nat \<Rightarrow> string" where
  "showNat n =
     (if n < 10 then [''0123456789'' ! n]
      else showNat (n div 10) @ [''0123456789'' ! (n mod 10)])"

text \<open>\<open>s.replace(/\/$/, "")\<close> and \<open>s.replace(/\.json$/, "")\<close>.\<close>

definition stripSlash :: "string \<Rightarrow> string" where
  "stripSlash s = (if s \<noteq> [] \<and> last s = CHR ''/'' then butlast s else s)"


section \<open>JSON values\<close>

text \<open>
  What \<open>JSON.parse\<close> returns. An object lists its properties, each key once. Numbers
  are the integers: the documents of this program carry time stamps and byte sizes.
\<close>

datatype json =
    JNull
  | JBool bool
  | JNum int
  | JStr string
  | JArr "json list"
  | JObj "(string \<times> json) list"

text \<open>
  Reading property \<open>k\<close> of a value that is neither \<open>null\<close> nor \<open>undefined\<close>;
  \<open>None\<close> is \<open>undefined\<close>. The keys this program reads (\<open>choices\<close>, \<open>delta\<close>,
  \<open>content\<close>, \<open>messages\<close>, \<open>title\<close>) are on no prototype, so only an object has
  them. \<open>jsIndex0\<close> is \<open>v[0]\<close>, which an array, a string and an object with key
  \<open>"0"\<close> answer.
\<close>

fun jsGet :: "json \<Rightarrow> string \<Rightarrow> json option" where
  "jsGet (JObj kvs) k = map_of kvs k"
| "jsGet _ k = None"

fun jsIndex0 :: "json \<Rightarrow> json option" where
  "jsIndex0 (JArr []) = None"
| "jsIndex0 (JArr (x # xs)) = Some x"
| "jsIndex0 (JStr []) = None"
| "jsIndex0 (JStr (c # cs)) = Some (JStr [c])"
| "jsIndex0 (JObj kvs) = map_of kvs ''0''"
| "jsIndex0 _ = None"

text \<open>Optional chaining \<open>v?.k\<close> and \<open>v?.[0]\<close>: \<open>undefined\<close> when \<open>v\<close> is \<open>null\<close> or \<open>undefined\<close>.\<close>

fun optGet :: "json option \<Rightarrow> string \<Rightarrow> json option" where
  "optGet None k = None"
| "optGet (Some JNull) k = None"
| "optGet (Some v) k = jsGet v k"

fun optIndex0 :: "json option \<Rightarrow> json option" where
  "optIndex0 None = None"
| "optIndex0 (Some JNull) = None"
| "optIndex0 (Some v) = jsIndex0 v"

text \<open>Truthiness of a value, and of a possibly undefined one.\<close>

fun truthy :: "json \<Rightarrow> bool" where
  "truthy JNull = False"
| "truthy (JBool b) = b"
| "truthy (JNum n) = (n \<noteq> 0)"
| "truthy (JStr s) = (s \<noteq> [])"
| "truthy (JArr xs) = True"
| "truthy (JObj kvs) = True"


text \<open>
  The services of the JavaScript runtime this program calls: \<open>JSON.parse\<close> (\<open>None\<close>
  when it throws), \<open>JSON.stringify\<close>, and the conversion to a string that \<open>+\<close>
  applies to an operand that is not a string (\<open>None\<close> when it throws).
\<close>

record runtime =
  jsonParse :: "string \<Rightarrow> json option"
  jsonStringify :: "json \<Rightarrow> string"
  toStringJs :: "json \<Rightarrow> string option"

section \<open>Persona and system prompt\<close>

fun STYLE_PROMPTS :: "assistantStyle \<Rightarrow> string" where
  "STYLE_PROMPTS Default = ''You are a concise, helpful assistant.\<newline>\<newline>- Use clean Markdown\<newline>- Prefer short paragraphs and bullet lists\<newline>- Add section headings (##)\<newline>- Use fenced code blocks with language hints\<newline>- Avoid unnecessary preambles or filler''"
| "STYLE_PROMPTS Claude = ''Adopt Anthropic Claude's tone: warm, thoughtful, and structured.\<newline>\<newline>- Use Markdown with clear section headings (##)\<newline>- Write short paragraphs and crisp bullet points\<newline>- Show code in fenced blocks with language tags and minimal commentary\<newline>- When helpful, conclude with a brief \"Next steps\" list\<newline>- Keep answers approachable yet precise''"
| "STYLE_PROMPTS ChatGPT = ''Adopt ChatGPT's tone: friendly, practical, and well-organized.\<newline>\<newline>- Begin with a one-line summary if the answer is long\<newline>- Use Markdown with lists, tables (when useful), and code blocks with language labels\<newline>- Prefer step-by-step instructions\<newline>- Add brief tips, caveats, or best practices to guide the reader''"
| "STYLE_PROMPTS Qwen = ''Adopt Qwen's tone: crisp, technical, and example-driven.\<newline>\<newline>- Respond in Markdown with numbered steps and compact explanations\<newline>- Favor code-first answers, with concise inline notes\<newline>- Highlight key commands or APIs succinctly\<newline>- Avoid verbosity and focus on essentials''"

definition systemPrompt :: "state \<Rightarrow> string" where
  "systemPrompt st =
     (let base = STYLE_PROMPTS (assistantStyle st)
      in if trim (customSystemPrompt st) \<noteq> []
         then base @ ''\<newline>\<newline>'' @ trim (customSystemPrompt st)
         else base)"

section \<open>Updating the conversation list\<close>

text \<open>
  \<open>addMessage\<close> and \<open>updateLastAssistant\<close> map over the list and change every
  conversation whose id is the active id their closure holds, here the argument
  \<open>aid\<close>. The loop of \<open>updateLastAssistant\<close> runs \<open>i\<close> from the last index down;
  \<open>updateLoop f msgs n\<close> is the loop at \<open>i = n - 1\<close>, finished when \<open>n = 0\<close>.
\<close>

definition addMessage :: "string option \<Rightarrow> message \<Rightarrow> state \<Rightarrow> state" where
  "addMessage aid msg st =
     st\<lparr>chats := map (\<lambda>c. if Some (chat_id c) = aid
                            then c\<lparr>messages := messages c @ [msg]\<rparr> else c) (chats st)\<rparr>"

fun updateLoop :: "(message \<Rightarrow> message) \<Rightarrow> message list \<Rightarrow> nat \<Rightarrow> message list" where
  "updateLoop f msgs 0 = msgs"
| "updateLoop f msgs (Suc i) =
     (if role (msgs ! i) = Assistant then msgs[i := f (msgs ! i)]
      else updateLoop f msgs i)"

definition updateLastAssistant :: "string option \<Rightarrow> (message \<Rightarrow> message) \<Rightarrow> state \<Rightarrow> state" where
  "updateLastAssistant aid updater st =
     st\<lparr>chats := map (\<lambda>c. if Some (chat_id c) = aid
                            then c\<lparr>messages := updateLoop updater (messages c) (length (messages c))\<rparr>
                            else c) (chats st)\<rparr>"

section \<open>Building the request payload\<close>

text \<open>
  \<open>buildPayload\<close>. \<open>isImage\<close> is the test \<open>a.type === "image" && a.dataUrl\<close>.
  The new user message gets a list of parts when one of its attachments passes that
  test; a message of the history gets one when \<open>m.attachments?.length\<close> is truthy,
  that is when it has any attachment.
\<close>

definition isImage :: "attachment \<Rightarrow> bool" where
  "isImage a = (att_type a = Image \<and> (case dataUrl a of Some u \<Rightarrow> u \<noteq> [] | None \<Rightarrow> False))"

definition imageParts :: "attachment list \<Rightarrow> part list" where
  "imageParts atts =
     map (\<lambda>a. ImageUrlPart (case dataUrl a of Some u \<Rightarrow> u | None \<Rightarrow> [])) (filter isImage atts)"

definition historyEntry :: "message \<Rightarrow> payloadMessage" where
  "historyEntry m =
     \<lparr>pm_role = role m,
      pm_content =
        (case attachments m of
           Some (a # as) \<Rightarrow> Parts (TextPart (content m) # imageParts (a # as))
         | _ \<Rightarrow> Plain (content m))\<rparr>"

definition buildPayload :: "state \<Rightarrow> message \<Rightarrow> message list \<Rightarrow> payload" where
  "buildPayload st userMsg history =
     (let atts = (case attachments userMsg of Some as \<Rightarrow> as | None \<Rightarrow> []);
          userHasImages = list_ex isImage atts;
          userContent = (if userHasImages
                         then Parts (TextPart (content userMsg) # imageParts atts)
                         else Plain (content userMsg));
          msgs = \<lparr>pm_role = System, pm_content = Plain (systemPrompt st)\<rparr>
                 # map historyEntry history
                 @ [\<lparr>pm_role = User, pm_content = userContent\<rparr>]
      in \<lparr>p_model = selectedModel (modelConfig st),
          p_messages = msgs,
          p_temperature = temperature (modelConfig st),
          p_max_tokens = maxTokens (modelConfig st),
          p_stream = True\<rparr>)"


section \<open>The streaming transport\<close>

subsection \<open>One line of a chunk\<close>

text \<open>
  \<open>line.match(/^data:\s*(.*)$/)\<close>, returning the group \<open>m[1]\<close>. The expression has
  no flag, so \<open>$\<close> is the end of the line and \<open>.\<close> takes no line terminator: after
  \<open>data:\<close> and the longest run of white space, the rest of the line is the payload
  when it holds no line terminator, and otherwise nothing matches.
\<close>

definition matchData :: "string \<Rightarrow> string option" where
  "matchData line =
     (if take 5 line = ''data:''
      then (let d = dropWhile isSpace (drop 5 line)
            in if list_ex isLineTerminator d then None else Some d)
      else None)"

text \<open>
  \<open>json.choices?.[0]?.delta?.content ?? ""\<close>. Reading \<open>choices\<close> of \<open>null\<close> throws
  a \<open>TypeError\<close>, the \<open>None\<close> of the result; \<open>??\<close> replaces \<open>null\<close> and
  \<open>undefined\<close> by the empty string.
\<close>

definition deltaOf :: "json \<Rightarrow> json option" where
  "deltaOf j =
     (case j of
        JNull \<Rightarrow> None
      | _ \<Rightarrow> (case optGet (optGet (optIndex0 (jsGet j ''choices'')) ''delta'') ''content'' of
                None \<Rightarrow> Some (JStr [])
              | Some JNull \<Rightarrow> Some (JStr [])
              | Some v \<Rightarrow> Some v))"

text \<open>
  The text \<open>full += delta\<close> appends for a truthy \<open>delta\<close>: the string itself, or what
  the runtime converts another value to; \<open>None\<close> when that conversion throws.
\<close>

definition deltaText :: "runtime \<Rightarrow> json \<Rightarrow> string option" where
  "deltaText R v = (case v of JStr s \<Rightarrow> Some s | _ \<Rightarrow> toStringJs R v)"

definition logParseFailure :: "string \<Rightarrow> state \<Rightarrow> state" where
  "logParseFailure line st =
     st\<lparr>console := console st @ [''Failed to parse OpenRouter stream: '' @ line]\<rparr>"

definition appendDelta :: "string \<Rightarrow> message \<Rightarrow> message" where
  "appendDelta t prev = prev\<lparr>content := content prev @ t\<rparr>"

text \<open>
  The body of the loop over the lines. The pair is the accumulator \<open>full\<close> and the
  component state. Everything between \<open>try\<close> and \<open>catch\<close> that throws ends in the
  \<open>catch\<close>, which logs the line.
\<close>

definition processLine :: "runtime \<Rightarrow> string option \<Rightarrow> string \<Rightarrow> string \<times> state \<Rightarrow> string \<times> state" where
  "processLine R aid line acc =
     (case matchData line of
        None \<Rightarrow> acc
      | Some d \<Rightarrow>
          if d = ''[DONE]'' then acc
          else (case jsonParse R d of
                  None \<Rightarrow> (fst acc, logParseFailure line (snd acc))
                | Some j \<Rightarrow>
                    (case deltaOf j of
                       None \<Rightarrow> (fst acc, logParseFailure line (snd acc))
                     | Some v \<Rightarrow>
                         if truthy v
                         then (case deltaText R v of
                                 None \<Rightarrow> (fst acc, logParseFailure line (snd acc))
                               | Some t \<Rightarrow> (fst acc @ t,
                                            updateLastAssistant aid (appendDelta t) (snd acc)))
                         else acc)))"

fun processLines :: "runtime \<Rightarrow> string option \<Rightarrow> string list \<Rightarrow> string \<times> state \<Rightarrow> string \<times> state" where
  "processLines R aid [] acc = acc"
| "processLines R aid (l # ls) acc = processLines R aid ls (processLine R aid l acc)"

text \<open>
  The \<open>while\<close> loop over the reads that deliver a chunk; a chunk is the text the
  decoder returns for it.
\<close>

fun readLoop :: "runtime \<Rightarrow> string option \<Rightarrow> string list \<Rightarrow> string \<times> state \<Rightarrow> string \<times> state" where
  "readLoop R aid [] acc = acc"
| "readLoop R aid (chunk # chunks) acc =
     readLoop R aid chunks (processLines R aid (split_nl chunk) acc)"

text \<open>
  The text one line adds to \<open>full\<close>, and the text the chunks of a stream add: the
  accumulator of the loop read apart from the state, to which lemma
  \<open>readLoop_text\<close> ties it.
\<close>

definition frameText :: "runtime \<Rightarrow> string \<Rightarrow> string" where
  "frameText R line =
     (case matchData line of
        None \<Rightarrow> []
      | Some d \<Rightarrow>
          if d = ''[DONE]'' then []
          else (case jsonParse R d of
                  None \<Rightarrow> []
                | Some j \<Rightarrow>
                    (case deltaOf j of
                       None \<Rightarrow> []
                     | Some v \<Rightarrow>
                         if truthy v
                         then (case deltaText R v of None \<Rightarrow> [] | Some t \<Rightarrow> t)
                         else [])))"

definition streamText :: "runtime \<Rightarrow> string list \<Rightarrow> string" where
  "streamText R chunks = concat (map (frameText R) (concat (map split_nl chunks)))"

subsection \<open>Errors and the network\<close>

text \<open>
  A thrown value, as the handlers read it: \<open>err.message\<close> and \<open>String(err)\<close>.
  The text of the \<open>TypeError\<close> for reading \<open>messages\<close> of \<open>undefined\<close> is V8's.
\<close>

datatype error = Err (message: string) (asString: string)

definition mkError :: "string \<Rightarrow> error" where
  "mkError msg = Err msg (''Error: '' @ msg)"

definition emptyResponse :: error where
  "emptyResponse = mkError ''Empty response from model''"

definition noActiveChat :: error where
  "noActiveChat =
     Err ''Cannot read properties of undefined (reading 'messages')''
         ''TypeError: Cannot read properties of undefined (reading 'messages')''"

text \<open>
  How a read loop ends: \<open>done\<close>, or \<open>reader.read()\<close> rejects, as it does after
  \<open>abort()\<close>. What the network answers to one \<open>fetch\<close>: the promise rejects; or the
  response fails \<open>!res.ok || !res.body\<close>, with its status, body text (empty when it
  cannot be read) and status text; or the body streams chunks and ends.
\<close>

datatype ending = Done | ReadRejected error

datatype response =
    FetchRejected error
  | NotOk nat string string
  | Stream "string list" ending

text \<open>The values \<open>uuid()\<close>, \<open>now()\<close> and \<open>new AbortController()\<close> give during one send.\<close>

record fresh =
  userId :: string
  userTime :: int
  asstId :: string
  asstTime :: int
  errId :: string
  errTime :: int
  ctl :: controller

subsection \<open>\<open>streamChat\<close>\<close>

text \<open>
  \<open>streamChat\<close> runs up to \<open>await fetch\<close>, where other handlers can run, and
  resumes with the answer. \<open>streamChatStart\<close> is the first part, \<open>streamChatResume\<close>
  the second, with the \<open>finally\<close> block after the loop on both ways out of it.
\<close>

definition streamChatStart :: "controller \<Rightarrow> payload \<Rightarrow> state \<Rightarrow> state" where
  "streamChatStart c pl st =
     st\<lparr>abortRef := Some c,
        requests := requests st
          @ [\<lparr>url = stripSlash (baseUrl (modelConfig st)) @ ''/chat/completions'',
               bearer = apiKey (modelConfig st),
               body = pl\<rparr>]\<rparr>"

definition cleanup :: "state \<Rightarrow> state" where
  "cleanup st = st\<lparr>isStreaming := False, abortRef := None\<rparr>"

definition placeholder :: "fresh \<Rightarrow> message" where
  "placeholder fr =
     \<lparr>msg_id = asstId fr, role = Assistant, content = [], timestamp = asstTime fr,
      attachments = None\<rparr>"

definition streamChatResume :: "runtime \<Rightarrow> string option \<Rightarrow> fresh \<Rightarrow> response \<Rightarrow> state \<Rightarrow> (error + string) \<times> state" where
  "streamChatResume R aid fr resp st =
     (case resp of
        FetchRejected e \<Rightarrow> (Inl e, st)
      | NotOk status text statusText \<Rightarrow>
          (Inl (mkError (''HTTP '' @ showNat status @ '': ''
                         @ (if text \<noteq> [] then text else statusText))), st)
      | Stream chunks ending \<Rightarrow>
          (let st1 = addMessage aid (placeholder fr) (st\<lparr>isStreaming := True\<rparr>);
               acc = readLoop R aid chunks ([], st1);
               st2 = cleanup (snd acc)
           in (case ending of
                 ReadRejected e \<Rightarrow> (Inl e, st2)
               | Done \<Rightarrow> if trim (fst acc) = [] then (Inl emptyResponse, st2)
                         else (Inr (fst acc), st2))))"

definition stopStreaming :: "state \<Rightarrow> state" where
  "stopStreaming st =
     (case abortRef st of
        Some c \<Rightarrow> st\<lparr>aborted := aborted st @ [c], abortRef := None, isStreaming := False\<rparr>
      | None \<Rightarrow> st\<lparr>abortRef := None, isStreaming := False\<rparr>)"

section \<open>Send, edit, regenerate\<close>

text \<open>
  What a handler that awaits the network leaves behind at \<open>await fetch\<close>: it has
  returned, or it waits with the values its closure holds (the active id, the trimmed
  text, the title of the active conversation).
\<close>

record closure =
  c_aid :: "string option"
  c_content :: string
  c_title :: string

datatype step = Returned state | Awaiting state closure

fun stateOf :: "step \<Rightarrow> state" where
  "stateOf (Returned st) = st"
| "stateOf (Awaiting st cl) = st"

fun awaits :: "step \<Rightarrow> bool" where
  "awaits (Returned st) = False"
| "awaits (Awaiting st cl) = True"

definition sendError :: "fresh \<Rightarrow> error \<Rightarrow> message" where
  "sendError fr e =
     \<lparr>msg_id = errId fr, role = Assistant,
      content = ''## Error\<newline>\<newline>''
                @ (if message e \<noteq> [] then message e else asString e)
                @ ''\<newline>\<newline>**Tips**\<newline>- Check API key / model\<newline>- Verify base URL'',
      timestamp = errTime fr, attachments = None\<rparr>"

text \<open>
  \<open>handleSend\<close> up to \<open>await fetch\<close>. The two optional fields of its argument
  \<open>custom\<close> are two arguments. \<open>activeChat.messages\<close> is read inside \<open>try\<close>: with
  no active conversation it throws into the \<open>catch\<close>.
\<close>

definition handleSendStart :: "string option \<Rightarrow> attachment list option \<Rightarrow> fresh \<Rightarrow> state \<Rightarrow> step" where
  "handleSendStart customContent customAttachments fr st =
     (if isStreaming st then Returned st
      else (let text = trim (case customContent of Some s \<Rightarrow> s | None \<Rightarrow> inputMessage st)
            in if text = [] then Returned st
               else if apiKey (modelConfig st) = [] \<or> selectedModel (modelConfig st) = []
               then Returned (st\<lparr>alerts := alerts st
                        @ [''Please set API key and model in Settings (gear icon)'']\<rparr>)
               else (let userMsg = \<lparr>msg_id = userId fr, role = User, content = text,
                                    timestamp = userTime fr,
                                    attachments = Some (case customAttachments of
                                                          Some as \<Rightarrow> as
                                                        | None \<Rightarrow> composerAttachments st)\<rparr>;
                         aid = activeChatId st;
                         st1 = (addMessage aid userMsg st)
                                 \<lparr>inputMessage := [], composerAttachments := []\<rparr>
                     in (case activeChat st of
                           None \<Rightarrow> Returned (addMessage aid (sendError fr noActiveChat) st1)
                         | Some c \<Rightarrow>
                             Awaiting
                               (streamChatStart (ctl fr) (buildPayload st userMsg (messages c)) st1)
                               \<lparr>c_aid = aid, c_content = text, c_title = title c\<rparr>))))"

definition setTitle :: "string option \<Rightarrow> string \<Rightarrow> state \<Rightarrow> state" where
  "setTitle aid t st =
     st\<lparr>chats := map (\<lambda>c. if Some (chat_id c) = aid then c\<lparr>title := t\<rparr> else c) (chats st)\<rparr>"

definition handleSendResume :: "runtime \<Rightarrow> fresh \<Rightarrow> closure \<Rightarrow> response \<Rightarrow> state \<Rightarrow> state" where
  "handleSendResume R fr cl resp st =
     (case streamChatResume R (c_aid cl) fr resp st of
        (Inr full, st1) \<Rightarrow>
          if c_title cl = ''New Chat'' \<and> c_content cl \<noteq> []
          then setTitle (c_aid cl) (take 42 (c_content cl)) st1
          else st1
      | (Inl e, st1) \<Rightarrow> addMessage (c_aid cl) (sendError fr e) st1)"

text \<open>\<open>handleSend\<close> when nothing else runs while it waits.\<close>

definition handleSend :: "runtime \<Rightarrow> string option \<Rightarrow> attachment list option \<Rightarrow> fresh \<Rightarrow> response \<Rightarrow> state \<Rightarrow> state" where
  "handleSend R customContent customAttachments fr resp st =
     (case handleSendStart customContent customAttachments fr st of
        Returned st1 \<Rightarrow> st1
      | Awaiting st1 cl \<Rightarrow> handleSendResume R fr cl resp st1)"

text \<open>\<open>findIndex\<close>: the first index whose element passes the test, \<open>None\<close> for \<open>-1\<close>.\<close>

fun findIndex :: "('a \<Rightarrow> bool) \<Rightarrow> 'a list \<Rightarrow> nat option" where
  "findIndex P [] = None"
| "findIndex P (x # xs) =
     (if P x then Some 0 else map_option Suc (findIndex P xs))"

text \<open>
  \<open>handleEditMessage\<close>. With no active conversation the first line throws and no
  state is set.
\<close>

definition handleEditMessage :: "string \<Rightarrow> state \<Rightarrow> state" where
  "handleEditMessage mid st =
     (case activeChat st of
        None \<Rightarrow> st
      | Some ac \<Rightarrow>
          (case find (\<lambda>x. msg_id x = mid) (messages ac) of
             None \<Rightarrow> st
           | Some m \<Rightarrow>
               st\<lparr>inputMessage := content m,
                  composerAttachments := (case attachments m of Some as \<Rightarrow> as | None \<Rightarrow> []),
                  chats := map (\<lambda>c. if Some (chat_id c) = activeChatId st
                                     then (case findIndex (\<lambda>x. msg_id x = mid) (messages c) of
                                             None \<Rightarrow> c
                                           | Some idx \<Rightarrow> c\<lparr>messages := take idx (messages c)\<rparr>)
                                     else c) (chats st)\<rparr>))"







section \<open>Export and import\<close>

subsection \<open>The exported document\<close>

text \<open>
  The tree of the object \<open>JSON.stringify(activeChat, null, 2)\<close> is given: a property
  that is \<open>undefined\<close> is left out. The order of the properties in a tree is fixed
  here; no function of this program reads it.
\<close>

fun roleName :: "role \<Rightarrow> string" where
  "roleName System = ''system''"
| "roleName User = ''user''"
| "roleName Assistant = ''assistant''"

fun typeName :: "attachmentType \<Rightarrow> string" where
  "typeName Image = ''image''"
| "typeName File = ''file''"

definition optField :: "string \<Rightarrow> ('a \<Rightarrow> json) \<Rightarrow> 'a option \<Rightarrow> (string \<times> json) list" where
  "optField k f v = (case v of None \<Rightarrow> [] | Some x \<Rightarrow> [(k, f x)])"

definition attachmentJson :: "attachment \<Rightarrow> json" where
  "attachmentJson a =
     JObj ([(''id'', JStr (att_id a)), (''name'', JStr (att_name a)),
            (''type'', JStr (typeName (att_type a))), (''mime'', JStr (mime a))]
           @ optField ''dataUrl'' JStr (dataUrl a)
           @ optField ''textPreview'' JStr (textPreview a)
           @ optField ''size'' JNum (att_size a))"

definition messageJson :: "message \<Rightarrow> json" where
  "messageJson m =
     JObj ([(''id'', JStr (msg_id m)), (''role'', JStr (roleName (role m))),
            (''content'', JStr (content m)), (''timestamp'', JNum (timestamp m))]
           @ optField ''attachments'' (\<lambda>as. JArr (map attachmentJson as)) (attachments m))"

definition chatJson :: "chat \<Rightarrow> json" where
  "chatJson c =
     JObj [(''id'', JStr (chat_id c)), (''title'', JStr (title c)),
           (''messages'', JArr (map messageJson (messages c)))]"


subsection \<open>Conversations as the runtime holds them\<close>















subsection \<open>\<open>importChat\<close>\<close>







section \<open>The single-conversation screen\<close>

text \<open>
  The state of the second component that \<open>sendMessage\<close> reads and writes, and
  \<open>sendMessage\<close> up to \<open>await fetch\<close>. Its message ids are \<open>Date.now().toString()\<close>;
  the clock value is an argument. The rest of the handler runs when the network
  answers and ends in \<open>setIsLoading(false)\<close>.
\<close>

record simpleMessage =
  sm_id :: string
  sm_role :: role
  sm_content :: string
  sm_timestamp :: nat

record simpleRequest =
  sr_url :: string
  sr_bearer :: string
  sr_model :: string
  sr_messages :: "(role \<times> string) list"

record simpleState =
  s_messages :: "simpleMessage list"
  s_inputMessage :: string
  s_isLoading :: bool
  s_apiKey :: string
  s_selectedModel :: string
  s_baseUrl :: string
  s_assistantStyle :: assistantStyle
  s_requests :: "simpleRequest list"

definition buildPayloadMessages :: "simpleState \<Rightarrow> simpleMessage \<Rightarrow> (role \<times> string) list" where
  "buildPayloadMessages st userMessage =
     (System, STYLE_PROMPTS (s_assistantStyle st))
     # map (\<lambda>m. (sm_role m, sm_content m)) (s_messages st @ [userMessage])"

definition sendMessageStart :: "nat \<Rightarrow> simpleState \<Rightarrow> simpleState" where
  "sendMessageStart clock st =
     (if trim (s_inputMessage st) = [] \<or> s_isLoading st then st
      else (let userMessage = \<lparr>sm_id = showNat clock, sm_role = User,
                               sm_content = trim (s_inputMessage st), sm_timestamp = clock\<rparr>
            in st\<lparr>s_messages := s_messages st @ [userMessage],
                  s_inputMessage := [],
                  s_isLoading := True,
                  s_requests := s_requests st
                    @ [\<lparr>sr_url = stripSlash (s_baseUrl st) @ ''/chat/completions'',
                         sr_bearer = s_apiKey st,
                         sr_model = s_selectedModel st,
                         sr_messages = buildPayloadMessages st userMessage\<rparr>]\<rparr>))"


section \<open>Example values\<close>

text \<open>A configured component with one empty conversation, and the values of one send.\<close>

definition exConfig :: modelConfig where
  "exConfig = \<lparr>apiKey = ''k'', selectedModel = ''m'', baseUrl = ''http://h/'',
               temperature = 0, maxTokens = None\<rparr>"

definition exChat :: chat where
  "exChat = \<lparr>chat_id = ''c1'', title = ''New Chat'', messages = []\<rparr>"

definition exState :: state where
  "exState = \<lparr>chats = [exChat], activeChatId = Some ''c1'', assistantStyle = Claude,
              customSystemPrompt = [], modelConfig = exConfig, isStreaming = False,
              abortRef = None, inputMessage = ''hi'', composerAttachments = [],
              requests = [], alerts = [], console = [], aborted = []\<rparr>"

definition exFresh :: fresh where
  "exFresh = \<lparr>userId = ''u1'', userTime = 1, asstId = ''a1'', asstTime = 2,
              errId = ''e1'', errTime = 3, ctl = Controller 0\<rparr>"

definition exFrame :: json where
  "exFrame = JObj [(''choices'', JArr [JObj [(''delta'', JObj [(''content'', JStr ''Hi'')])]])]"

definition exUser :: message where
  "exUser = \<lparr>msg_id = ''u1'', role = User, content = ''hi'', timestamp = 1, attachments = Some []\<rparr>"

definition exStreaming :: state where
  "exStreaming = exState\<lparr>chats := [exChat\<lparr>messages := [exUser, placeholder exFresh]\<rparr>],
                         isStreaming := True, abortRef := Some (Controller 0), inputMessage := []\<rparr>"

definition exReply :: message where
  "exReply = \<lparr>msg_id = ''a0'', role = Assistant, content = ''hello'', timestamp = 2,
              attachments = None\<rparr>"

definition exFile :: attachment where
  "exFile = \<lparr>att_id = ''f1'', att_name = ''notes.txt'', att_type = File, mime = ''text/plain'',
             dataUrl = None, textPreview = Some ''abc'', att_size = Some 3\<rparr>"

definition exFileMsg :: message where
  "exFileMsg = \<lparr>msg_id = ''u0'', role = User, content = ''see file'', timestamp = 0,
                attachments = Some [exFile]\<rparr>"


definition exLong :: state where
  "exLong = exState\<lparr>chats := [exChat\<lparr>messages := [exUser, exReply, exFileMsg]\<rparr>],
                     inputMessage := []\<rparr>"

text \<open>
  A conversation with three messages, the same without title, a conversation with a
  repeated message id, and three documents offered to the import.
\<close>

definition exArchive :: chat where
  "exArchive = exChat\<lparr>messages := [exUser, exReply, exFileMsg]\<rparr>"


definition exFirst :: message where
  "exFirst = \<lparr>msg_id = ''u1'', role = User, content = ''first'', timestamp = 1,
              attachments = Some []\<rparr>"

definition exThird :: message where
  "exThird = \<lparr>msg_id = ''u1'', role = User, content = ''third'', timestamp = 3,
              attachments = Some [exFile]\<rparr>"

definition exRepeated :: state where
  "exRepeated = exState\<lparr>chats := [exChat\<lparr>messages := [exFirst, exReply, exThird]\<rparr>],
                         inputMessage := []\<rparr>"

definition exTitleOnly :: json where
  "exTitleOnly = JObj [(''title'', JStr ''T'')]"

definition exNoMessages :: json where
  "exNoMessages = JObj [(''title'', JStr ''T''), (''messages'', JArr [])]"

definition exUntyped :: json where
  "exUntyped = JObj [(''title'', JNum 7), (''messages'', JArr [JNull])]"

text \<open>
  The texts \<open>JSON.stringify(c, null, 2)\<close> writes for the two conversations, and a
  runtime that prints these two and parses them, the three documents and one frame of a
  stream.
\<close>

definition exArchiveText :: string where
  "exArchiveText = ''{\<newline>  \"id\": \"c1\",\<newline>  \"title\": \"New Chat\",\<newline>  \"messages\": [\<newline>    {\<newline>      \"id\": \"u1\",\<newline>      \"role\": \"user\",\<newline>      \"content\": \"hi\",\<newline>      \"timestamp\": 1,\<newline>      \"attachments\": []\<newline>    },\<newline>    {\<newline>      \"id\": \"a0\",\<newline>      \"role\": \"assistant\",\<newline>      \"content\": \"hello\",\<newline>      \"timestamp\": 2\<newline>    },\<newline>    {\<newline>      \"id\": \"u0\",\<newline>      \"role\": \"user\",\<newline>      \"content\": \"see file\",\<newline>      \"timestamp\": 0,\<newline>      \"attachments\": [\<newline>        {\<newline>          \"id\": \"f1\",\<newline>          \"name\": \"notes.txt\",\<newline>          \"type\": \"file\",\<newline>          \"mime\": \"text/plain\",\<newline>          \"textPreview\": \"abc\",\<newline>          \"size\": 3\<newline>        }\<newline>      ]\<newline>    }\<newline>  ]\<newline>}''"

definition exUntitledText :: string where
  "exUntitledText = ''{\<newline>  \"id\": \"c1\",\<newline>  \"title\": \"\",\<newline>  \"messages\": [\<newline>    {\<newline>      \"id\": \"u1\",\<newline>      \"role\": \"user\",\<newline>      \"content\": \"hi\",\<newline>      \"timestamp\": 1,\<newline>      \"attachments\": []\<newline>    },\<newline>    {\<newline>      \"id\": \"a0\",\<newline>      \"role\": \"assistant\",\<newline>      \"content\": \"hello\",\<newline>      \"timestamp\": 2\<newline>    },\<newline>    {\<newline>      \"id\": \"u0\",\<newline>      \"role\": \"user\",\<newline>      \"content\": \"see file\",\<newline>      \"timestamp\": 0,\<newline>      \"attachments\": [\<newline>        {\<newline>          \"id\": \"f1\",\<newline>          \"name\": \"notes.txt\",\<newline>          \"type\": \"file\",\<newline>          \"mime\": \"text/plain\",\<newline>          \"textPreview\": \"abc\",\<newline>          \"size\": 3\<newline>        }\<newline>      ]\<newline>    }\<newline>  ]\<newline>}''"

definition exRuntime :: runtime where
  "exRuntime =
     \<lparr>jsonParse = map_of
        [(''{\"choices\":[{\"delta\":{\"content\":\"Hi\"}}]}'', exFrame),
         (''{\"title\":\"T\"}'', exTitleOnly),
         (''{\"title\":\"T\",\"messages\":[]}'', exNoMessages),
         (''{\"title\":7,\"messages\":[null]}'', exUntyped),
         (exArchiveText, chatJson exArchive),
         (exUntitledText, chatJson (exArchive\<lparr>title := []\<rparr>))],
      jsonStringify = (\<lambda>j. if j = chatJson exArchive then exArchiveText
                            else if j = chatJson (exArchive\<lparr>title := []\<rparr>) then exUntitledText
                            else []),
      toStringJs = (\<lambda>v. None)\<rparr>"

text \<open>
  The state a first send leaves while it awaits the response, the values of a second
  send, and a state of the single-conversation screen.
\<close>

definition exPending :: state where
  "exPending = stateOf (handleSendStart None None exFresh exState)"

definition exFresh2 :: fresh where
  "exFresh2 = \<lparr>userId = ''u2'', userTime = 4, asstId = ''a2'', asstTime = 5,
               errId = ''e2'', errTime = 6, ctl = Controller 1\<rparr>"

definition exSimple :: simpleState where
  "exSimple = \<lparr>s_messages = [], s_inputMessage = ''hi'', s_isLoading = False, s_apiKey = ''k'',
               s_selectedModel = ''m'', s_baseUrl = ''http://h/'', s_assistantStyle = Claude,
               s_requests = []\<rparr>"

section \<open>Lemmas on the conversation list\<close>

lemma find_map_active:
  assumes "\<And>c. chat_id (g c) = chat_id c"
  shows "find (\<lambda>c. Some (chat_id c) = aid) (map (\<lambda>c. if Some (chat_id c) = aid then g c else c) cs)
       = map_option g (find (\<lambda>c. Some (chat_id c) = aid) cs)"
  by (induction cs) (simp_all add: assms)

lemma activeChat_addMessage:
  "activeChat (addMessage (activeChatId st) m st)
     = map_option (\<lambda>c. c\<lparr>messages := messages c @ [m]\<rparr>) (activeChat st)"
  unfolding activeChat_def addMessage_def
  by (simp add: find_map_active)

lemma activeChat_updateLastAssistant:
  "activeChat (updateLastAssistant (activeChatId st) f st)
     = map_option (\<lambda>c. c\<lparr>messages := updateLoop f (messages c) (length (messages c))\<rparr>) (activeChat st)"
  unfolding activeChat_def updateLastAssistant_def
  by (simp add: find_map_active)

lemma updateLoop_id: "(\<And>m. f m = m) \<Longrightarrow> updateLoop f msgs n = msgs"
  by (induction n) simp_all

lemma updateLoop_append:
  "n \<le> length xs \<Longrightarrow> updateLoop f (xs @ ys) n = updateLoop f xs n @ ys"
  by (induction n) (simp_all add: nth_append list_update_append1)

lemma updateLoop_skip:
  "list_all (\<lambda>m. role m \<noteq> Assistant) rest \<Longrightarrow> i \<le> length rest \<Longrightarrow>
   updateLoop f (xs @ rest) (length xs + i) = updateLoop f (xs @ rest) (length xs)"
  by (induction i) (simp_all add: nth_append list_all_length)

lemma updateLoop_last_assistant:
  assumes "role a = Assistant" and "list_all (\<lambda>m. role m \<noteq> Assistant) rest"
  shows "updateLoop f (ms @ a # rest) (length (ms @ a # rest)) = ms @ f a # rest"
proof -
  have "updateLoop f ((ms @ [a]) @ rest) (length (ms @ [a]) + length rest)
        = updateLoop f ((ms @ [a]) @ rest) (length (ms @ [a]))"
    using assms(2) by (rule updateLoop_skip) simp
  also have "\<dots> = updateLoop f (ms @ [a]) (length (ms @ [a])) @ rest"
    by (rule updateLoop_append) simp
  also have "updateLoop f (ms @ [a]) (length (ms @ [a])) = ms @ [f a]"
    using assms(1) by simp
  finally show ?thesis by simp
qed

lemma appendDelta_Nil: "appendDelta [] m = m"
  by (simp add: appendDelta_def)

lemma updateLastAssistant_Nil: "updateLastAssistant aid (appendDelta []) st = st"
proof -
  have same: "map (\<lambda>c. if Some (chat_id c) = aid
                 then c\<lparr>messages := updateLoop (appendDelta []) (messages c) (length (messages c))\<rparr>
                 else c) cs = cs" for cs
    by (induction cs) (simp_all add: updateLoop_id appendDelta_Nil)
  show ?thesis by (simp add: updateLastAssistant_def same)
qed

lemma deltaOf_first_choice:
  assumes "map_of kvs ''choices'' = Some (JArr (JObj ch # chs))"
    and "map_of ch ''delta'' = Some (JObj dl)"
    and "map_of dl ''content'' = Some (JStr t)"
  shows "deltaOf (JObj kvs) = Some (JStr t)"
  using assms by (simp add: deltaOf_def)

lemma processLine_text:
  assumes "matchData line = Some d" and "d \<noteq> ''[DONE]''"
    and "jsonParse R d = Some j" and "deltaOf j = Some (JStr t)"
  shows "processLine R aid line acc
       = (fst acc @ t, updateLastAssistant aid (appendDelta t) (snd acc))"
  using assms by (cases "t = []") (simp_all add: processLine_def deltaText_def updateLastAssistant_Nil)

lemma processLines_append:
  "processLines R aid (xs @ ys) acc = processLines R aid ys (processLines R aid xs acc)"
  by (induction xs arbitrary: acc) simp_all

lemma readLoop_lines:
  "readLoop R aid chunks acc = processLines R aid (concat (map split_nl chunks)) acc"
  by (induction chunks arbitrary: acc) (simp_all add: processLines_append)

section \<open>Lemmas on the read loop\<close>

lemma exRuntime_frame:
  "jsonParse exRuntime ''{\"choices\":[{\"delta\":{\"content\":\"Hi\"}}]}'' = Some exFrame"
  by (simp add: exRuntime_def)

lemma exRuntime_oops: "jsonParse exRuntime ''{oops'' = None"
  by (simp add: exRuntime_def exArchiveText_def exUntitledText_def)

lemma all_dropWhile: "(\<forall>x \<in> set (dropWhile P s). P x) \<longleftrightarrow> (\<forall>x \<in> set s. P x)"
  by (induction s) auto

lemma trim_empty_iff: "trim s = [] \<longleftrightarrow> list_all isSpace s"
  by (simp add: trim_def dropWhile_eq_Nil_conv list_all_iff all_dropWhile)

lemma split_nl_line: "CHR 0x0A \<notin> set l \<Longrightarrow> split_nl l = [l]"
  by (induction l) auto

lemma split_nl_break: "CHR 0x0A \<notin> set l \<Longrightarrow> split_nl (l @ CHR 0x0A # s) = l # split_nl s"
  by (induction l) auto

lemma matchData_framed:
  assumes "list_all isSpace ws" and "dropWhile isSpace d = d"
    and "\<not> list_ex isLineTerminator d"
  shows "matchData (''data:'' @ ws @ d) = Some d"
proof -
  have "dropWhile isSpace (ws @ d) = dropWhile isSpace d"
    using assms(1) by (induction ws) simp_all
  with assms(2,3) show ?thesis by (simp add: matchData_def)
qed

lemma processLine_fst: "fst (processLine R aid line acc) = fst acc @ frameText R line"
  by (simp add: processLine_def frameText_def split: option.splits)

lemma processLines_fst:
  "fst (processLines R aid ls acc) = fst acc @ concat (map (frameText R) ls)"
  by (induction ls arbitrary: acc) (simp_all add: processLine_fst)

lemma readLoop_text: "fst (readLoop R aid chunks acc) = fst acc @ streamText R chunks"
  by (simp add: readLoop_lines processLines_fst streamText_def)

lemma processLine_silent:
  assumes "frameText R line = []"
  shows "chats (snd (processLine R aid line acc)) = chats (snd acc)"
  using assms
  by (auto simp: processLine_def frameText_def logParseFailure_def updateLastAssistant_Nil
           split: option.splits if_splits)

lemma processLines_silent:
  "concat (map (frameText R) ls) = [] \<Longrightarrow>
   chats (snd (processLines R aid ls acc)) = chats (snd acc)"
  by (induction ls arbitrary: acc) (simp_all add: processLine_silent)

lemma readLoop_silent:
  "streamText R chunks = [] \<Longrightarrow> chats (snd (readLoop R aid chunks acc)) = chats (snd acc)"
  by (simp add: readLoop_lines processLines_silent streamText_def)

text \<open>The loop writes the conversations and the console, nothing else.\<close>

lemma processLine_frame:
  "snd (processLine R aid line acc)
     = (snd acc)\<lparr>chats := chats (snd (processLine R aid line acc)),
                 console := console (snd (processLine R aid line acc))\<rparr>"
  by (simp add: processLine_def logParseFailure_def updateLastAssistant_def split: option.splits)

lemma processLines_frame:
  "snd (processLines R aid ls acc)
     = (snd acc)\<lparr>chats := chats (snd (processLines R aid ls acc)),
                 console := console (snd (processLines R aid ls acc))\<rparr>"
proof (induction ls arbitrary: acc)
  case Nil
  show ?case by simp
next
  case (Cons l ls)
  have "snd (processLines R aid (l # ls) acc)
        = (snd (processLine R aid l acc))
            \<lparr>chats := chats (snd (processLines R aid (l # ls) acc)),
             console := console (snd (processLines R aid (l # ls) acc))\<rparr>"
    using Cons.IH [of "processLine R aid l acc"] by simp
  also have "\<dots> = (snd acc)\<lparr>chats := chats (snd (processLines R aid (l # ls) acc)),
                console := console (snd (processLines R aid (l # ls) acc))\<rparr>"
    by (subst processLine_frame) simp
  finally show ?case .
qed

lemma readLoop_frame:
  "snd (readLoop R aid chunks acc)
     = (snd acc)\<lparr>chats := chats (snd (readLoop R aid chunks acc)),
                 console := console (snd (readLoop R aid chunks acc))\<rparr>"
  unfolding readLoop_lines by (rule processLines_frame)

lemma find_addMessage:
  "find (\<lambda>c. Some (chat_id c) = aid) (chats (addMessage aid m st))
     = map_option (\<lambda>c. c\<lparr>messages := messages c @ [m]\<rparr>)
         (find (\<lambda>c. Some (chat_id c) = aid) (chats st))"
  by (simp add: addMessage_def find_map_active)

lemma activeChatId_readLoop:
  "activeChatId (snd (readLoop R aid chunks acc)) = activeChatId (snd acc)"
  by (subst readLoop_frame) simp

section \<open>Frames of the stream\<close>

text \<open>
  Claim C1. A chunk is cut at its line feeds and the read loop handles the lines of all
  chunks in order. A line that does not begin with \<open>data:\<close>, a \<open>data:\<close> line
  with a line terminator in its payload, and the payload \<open>[DONE]\<close> change nothing.
  For a line \<open>data:\<close>, white space, payload: a payload \<open>JSON.parse\<close> rejects
  changes only the console, where the line is logged, and the lines after it are
  processed from there; a payload that parses to an object without choices changes
  nothing; a payload that parses to an object whose first choice has the delta content
  \<open>t\<close> appends \<open>t\<close> to the accumulator and to the content of the last assistant
  message of the active conversation.
\<close>

theorem processLine_frames:
  "(CHR 0x0A \<notin> set l \<longrightarrow>
      split_nl l = [l] \<and> split_nl (l @ CHR 0x0A # s) = l # split_nl s)
 \<and> readLoop R aid (chunk # chunks) acc
     = readLoop R aid chunks (processLines R aid (split_nl chunk) acc)
 \<and> readLoop R aid [] acc = acc
 \<and> processLines R aid (line # ls) acc = processLines R aid ls (processLine R aid line acc)
 \<and> processLines R aid [] acc = acc
 \<and> (take 5 line \<noteq> ''data:'' \<longrightarrow> processLine R aid line acc = acc)
 \<and> (list_ex isLineTerminator (dropWhile isSpace r) \<longrightarrow>
      processLine R aid (''data:'' @ r) acc = acc)
 \<and> (list_all isSpace ws \<longrightarrow> processLine R aid (''data:'' @ ws @ ''[DONE]'') acc = acc)
 \<and> (list_all isSpace ws \<and> dropWhile isSpace d = d \<and> \<not> list_ex isLineTerminator d
      \<and> d \<noteq> ''[DONE]'' \<and> jsonParse R d = None \<longrightarrow>
      processLine R aid (''data:'' @ ws @ d) acc
        = (fst acc, (snd acc)\<lparr>console := console (snd acc)
                      @ [''Failed to parse OpenRouter stream: '' @ ''data:'' @ ws @ d]\<rparr>)
      \<and> processLines R aid ((''data:'' @ ws @ d) # ls) acc
          = processLines R aid ls
              (fst acc, (snd acc)\<lparr>console := console (snd acc)
                      @ [''Failed to parse OpenRouter stream: '' @ ''data:'' @ ws @ d]\<rparr>))
 \<and> (list_all isSpace ws \<and> dropWhile isSpace d = d \<and> \<not> list_ex isLineTerminator d
      \<and> d \<noteq> ''[DONE]'' \<and> jsonParse R d = Some (JObj kvs)
      \<and> map_of kvs ''choices'' = None \<longrightarrow>
      processLine R aid (''data:'' @ ws @ d) acc = acc)
 \<and> (list_all isSpace ws \<and> dropWhile isSpace d = d \<and> \<not> list_ex isLineTerminator d
      \<and> d \<noteq> ''[DONE]'' \<and> jsonParse R d = Some (JObj kvs)
      \<and> map_of kvs ''choices'' = Some (JArr (JObj ch # chs))
      \<and> map_of ch ''delta'' = Some (JObj dl)
      \<and> map_of dl ''content'' = Some (JStr t)
      \<and> activeChat st = Some c \<and> messages c = ms @ a # rest \<and> role a = Assistant
      \<and> list_all (\<lambda>m. role m \<noteq> Assistant) rest \<longrightarrow>
      fst (processLine R (activeChatId st) (''data:'' @ ws @ d) (full, st)) = full @ t
      \<and> activeChat (snd (processLine R (activeChatId st) (''data:'' @ ws @ d) (full, st)))
          = Some (c\<lparr>messages := ms @ a\<lparr>content := content a @ t\<rparr> # rest\<rparr>)
      \<and> console (snd (processLine R (activeChatId st) (''data:'' @ ws @ d) (full, st)))
          = console st)"
proof (intro conjI impI)
  assume "CHR 0x0A \<notin> set l"
  then show "split_nl l = [l]" and "split_nl (l @ CHR 0x0A # s) = l # split_nl s"
    by (simp_all add: split_nl_line split_nl_break)
next
  assume "take 5 line \<noteq> ''data:''"
  then show "processLine R aid line acc = acc"
    by (simp add: processLine_def matchData_def)
next
  assume "list_ex isLineTerminator (dropWhile isSpace r)"
  then show "processLine R aid (''data:'' @ r) acc = acc"
    by (simp add: processLine_def matchData_def)
next
  assume "list_all isSpace ws"
  moreover have "dropWhile isSpace ''[DONE]'' = ''[DONE]''"
    and "\<not> list_ex isLineTerminator ''[DONE]''"
    by (simp_all add: isSpace_def isLineTerminator_def)
  ultimately have "matchData (''data:'' @ ws @ ''[DONE]'') = Some ''[DONE]''"
    by (rule matchData_framed)
  then show "processLine R aid (''data:'' @ ws @ ''[DONE]'') acc = acc"
    by (simp add: processLine_def)
next
  assume h: "list_all isSpace ws \<and> dropWhile isSpace d = d \<and> \<not> list_ex isLineTerminator d
      \<and> d \<noteq> ''[DONE]'' \<and> jsonParse R d = None"
  then have m: "matchData (''data:'' @ ws @ d) = Some d"
    using matchData_framed [of ws d] by blast
  with h show step: "processLine R aid (''data:'' @ ws @ d) acc
        = (fst acc, (snd acc)\<lparr>console := console (snd acc)
                      @ [''Failed to parse OpenRouter stream: '' @ ''data:'' @ ws @ d]\<rparr>)"
    by (simp add: processLine_def logParseFailure_def)
  show "processLines R aid ((''data:'' @ ws @ d) # ls) acc
          = processLines R aid ls
              (fst acc, (snd acc)\<lparr>console := console (snd acc)
                      @ [''Failed to parse OpenRouter stream: '' @ ''data:'' @ ws @ d]\<rparr>)"
    unfolding processLines.simps step ..
next
  assume h: "list_all isSpace ws \<and> dropWhile isSpace d = d \<and> \<not> list_ex isLineTerminator d
      \<and> d \<noteq> ''[DONE]'' \<and> jsonParse R d = Some (JObj kvs)
      \<and> map_of kvs ''choices'' = None"
  then have m: "matchData (''data:'' @ ws @ d) = Some d"
    using matchData_framed [of ws d] by blast
  have "deltaOf (JObj kvs) = Some (JStr [])"
    using h by (simp add: deltaOf_def)
  with m h show "processLine R aid (''data:'' @ ws @ d) acc = acc"
    by (simp add: processLine_def)
next
  assume h: "list_all isSpace ws \<and> dropWhile isSpace d = d \<and> \<not> list_ex isLineTerminator d
      \<and> d \<noteq> ''[DONE]'' \<and> jsonParse R d = Some (JObj kvs)
      \<and> map_of kvs ''choices'' = Some (JArr (JObj ch # chs))
      \<and> map_of ch ''delta'' = Some (JObj dl)
      \<and> map_of dl ''content'' = Some (JStr t)
      \<and> activeChat st = Some c \<and> messages c = ms @ a # rest \<and> role a = Assistant
      \<and> list_all (\<lambda>m. role m \<noteq> Assistant) rest"
  then have m: "matchData (''data:'' @ ws @ d) = Some d"
    using matchData_framed [of ws d] by blast
  have dl: "deltaOf (JObj kvs) = Some (JStr t)"
    using h by (simp add: deltaOf_first_choice)
  have step: "processLine R (activeChatId st) (''data:'' @ ws @ d) (full, st)
              = (full @ t, updateLastAssistant (activeChatId st) (appendDelta t) st)"
    using processLine_text [OF m _ _ dl, of R "activeChatId st" "(full, st)"] h by simp
  have "updateLoop (appendDelta t) (messages c) (length (messages c))
        = ms @ appendDelta t a # rest"
    using h updateLoop_last_assistant [of a rest "appendDelta t" ms] by simp
  with h have act: "activeChat (updateLastAssistant (activeChatId st) (appendDelta t) st)
               = Some (c\<lparr>messages := ms @ a\<lparr>content := content a @ t\<rparr> # rest\<rparr>)"
    by (simp add: activeChat_updateLastAssistant appendDelta_def)
  show "fst (processLine R (activeChatId st) (''data:'' @ ws @ d) (full, st)) = full @ t"
    by (simp only: step fst_conv)
  show "activeChat (snd (processLine R (activeChatId st) (''data:'' @ ws @ d) (full, st)))
          = Some (c\<lparr>messages := ms @ a\<lparr>content := content a @ t\<rparr> # rest\<rparr>)"
    by (simp only: step snd_conv act)
  have "console (updateLastAssistant (activeChatId st) (appendDelta t) st) = console st"
    by (simp add: updateLastAssistant_def)
  then show "console (snd (processLine R (activeChatId st) (''data:'' @ ws @ d) (full, st)))
          = console st"
    by (simp only: step snd_conv)
qed simp_all

theorem processLine_frames_witness:
  "processLine exRuntime (Some ''c1'') ''event: ping'' ([], exStreaming) = ([], exStreaming)
 \<and> processLine exRuntime (Some ''c1'') (''data:{x}'' @ [CHR 0x0D]) ([], exStreaming)
     = ([], exStreaming)
 \<and> processLine exRuntime (Some ''c1'') ''data: [DONE]'' ([], exStreaming) = ([], exStreaming)
 \<and> processLine exRuntime (Some ''c1'') ''data: {oops'' ([], exStreaming)
     = ([], exStreaming\<lparr>console := [''Failed to parse OpenRouter stream: data: {oops'']\<rparr>)
 \<and> processLine exRuntime (Some ''c1'') ''data: {\"title\":\"T\"}'' ([], exStreaming)
     = ([], exStreaming)
 \<and> fst (processLine exRuntime (Some ''c1'')
           ''data: {\"choices\":[{\"delta\":{\"content\":\"Hi\"}}]}'' ([], exStreaming)) = ''Hi''
 \<and> activeChat (snd (processLine exRuntime (Some ''c1'')
           ''data: {\"choices\":[{\"delta\":{\"content\":\"Hi\"}}]}'' ([], exStreaming)))
     = Some (exChat\<lparr>messages := [exUser, (placeholder exFresh)\<lparr>content := ''Hi''\<rparr>]\<rparr>)
 \<and> split_nl ''event: ping\<newline>data: {oops\<newline>data: {\"choices\":[{\"delta\":{\"content\":\"Hi\"}}]}''
     = [''event: ping'', ''data: {oops'', ''data: {\"choices\":[{\"delta\":{\"content\":\"Hi\"}}]}'']
 \<and> readLoop exRuntime (Some ''c1'')
       [''event: ping\<newline>data: {oops\<newline>data: {\"choices\":[{\"delta\":{\"content\":\"Hi\"}}]}'',
        ''\<newline>data: {\"choices\":[{\"delta\":{\"content\":\"Hi\"}}]}\<newline>data: [DONE]\<newline>'']
       ([], exStreaming)
     = (''HiHi'',
        exStreaming\<lparr>chats := [exChat\<lparr>messages :=
                                [exUser, (placeholder exFresh)\<lparr>content := ''HiHi''\<rparr>]\<rparr>],
                     console := [''Failed to parse OpenRouter stream: data: {oops'']\<rparr>)"
proof -
  let ?frame = "''{\"choices\":[{\"delta\":{\"content\":\"Hi\"}}]}''"
  let ?acc = "([]::string, exStreaming)"
  have sp: "list_all isSpace '' ''" by (simp add: isSpace_def)
  have a: "activeChat exStreaming = Some (exChat\<lparr>messages := [exUser, placeholder exFresh]\<rparr>)"
    and i: "activeChatId exStreaming = Some ''c1''"
    by (simp_all add: activeChat_def exStreaming_def exState_def exChat_def)
  have c1: "processLine exRuntime (Some ''c1'') ''event: ping'' ?acc = ?acc"
    using processLine_frames [where line = "''event: ping''" and R = exRuntime
        and aid = "Some ''c1''" and acc = ?acc]
    by simp
  have c2: "processLine exRuntime (Some ''c1'') (''data:{x}'' @ [CHR 0x0D]) ?acc = ?acc"
    using processLine_frames [where r = "''{x}'' @ [CHR 0x0D]" and R = exRuntime
        and aid = "Some ''c1''" and acc = ?acc]
    by (simp add: isSpace_def isLineTerminator_def)
  have c3: "processLine exRuntime (Some ''c1'') ''data: [DONE]'' ?acc = ?acc"
    using processLine_frames [where ws = "'' ''" and R = exRuntime
        and aid = "Some ''c1''" and acc = ?acc] sp
    by simp
  have c4: "processLine exRuntime (Some ''c1'') ''data: {oops'' ?acc
            = ([], exStreaming\<lparr>console := [''Failed to parse OpenRouter stream: data: {oops'']\<rparr>)"
    using processLine_frames [where ws = "'' ''" and d = "''{oops''" and R = exRuntime
        and aid = "Some ''c1''" and acc = ?acc] sp exRuntime_oops
    by (simp add: isSpace_def isLineTerminator_def exStreaming_def exState_def)
  have pt: "jsonParse exRuntime ''{\"title\":\"T\"}'' = Some (JObj [(''title'', JStr ''T'')])"
    by (simp add: exRuntime_def exTitleOnly_def)
  have c4': "processLine exRuntime (Some ''c1'') ''data: {\"title\":\"T\"}'' ?acc = ?acc"
    using processLine_frames [where ws = "'' ''" and d = "''{\"title\":\"T\"}''" and R = exRuntime
        and kvs = "[(''title'', JStr ''T'')]" and aid = "Some ''c1''" and acc = ?acc] sp pt
    by (simp add: isSpace_def isLineTerminator_def)
  have c5: "fst (processLine exRuntime (Some ''c1'') (''data: '' @ ?frame) ?acc) = ''Hi''
       \<and> activeChat (snd (processLine exRuntime (Some ''c1'') (''data: '' @ ?frame) ?acc))
           = Some (exChat\<lparr>messages := [exUser, (placeholder exFresh)\<lparr>content := ''Hi''\<rparr>]\<rparr>)"
    using processLine_frames [where ws = "'' ''" and d = ?frame and R = exRuntime
        and kvs = "[(''choices'', JArr [JObj [(''delta'', JObj [(''content'', JStr ''Hi'')])]])]"
        and ch = "[(''delta'', JObj [(''content'', JStr ''Hi'')])]" and chs = "[]"
        and dl = "[(''content'', JStr ''Hi'')]" and t = "''Hi''"
        and st = exStreaming and c = "exChat\<lparr>messages := [exUser, placeholder exFresh]\<rparr>"
        and ms = "[exUser]" and a = "placeholder exFresh" and rest = "[]" and full = "[]"]
      sp exRuntime_frame a i
    by (simp add: isSpace_def isLineTerminator_def exFrame_def placeholder_def)
  have s: "split_nl (''event: ping\<newline>data: {oops\<newline>data: '' @ ?frame)
           = [''event: ping'', ''data: {oops'', ''data: '' @ ?frame]"
    by simp
  have run: "readLoop exRuntime (Some ''c1'')
       [''event: ping\<newline>data: {oops\<newline>data: '' @ ?frame,
        ''\<newline>data: '' @ ?frame @ ''\<newline>data: [DONE]\<newline>'']
       ?acc
     = (''HiHi'',
        exStreaming\<lparr>chats := [exChat\<lparr>messages :=
                                [exUser, (placeholder exFresh)\<lparr>content := ''HiHi''\<rparr>]\<rparr>],
                     console := [''Failed to parse OpenRouter stream: data: {oops'']\<rparr>)"
    by (simp add: processLine_def matchData_def isSpace_def isLineTerminator_def
          exRuntime_frame exRuntime_oops exFrame_def deltaOf_def deltaText_def
          logParseFailure_def updateLastAssistant_def appendDelta_def
          exStreaming_def exState_def exChat_def placeholder_def)
  from c1 c2 c3 c4 c4' c5 s run show ?thesis by simp
qed

section \<open>Cleanup after the read loop\<close>

text \<open>
  Claim C2. Once the response streams, the state \<open>streamChat\<close> leaves is the cleanup
  of the state after the loop, with \<open>isStreaming\<close> false and \<open>abortRef\<close> cleared,
  whatever the chunks were and however the loop ended: a read that rejects, as after an
  abort, passes its error on; the end of the stream gives the empty-response error or the
  text. \<open>stopStreaming\<close> leaves the same two values, and so does the cleanup that
  follows it.
\<close>

theorem streamChat_cleanup:
  "isStreaming (snd (streamChatResume R aid fr (Stream chunks ending) st)) = False
 \<and> abortRef (snd (streamChatResume R aid fr (Stream chunks ending) st)) = None
 \<and> snd (streamChatResume R aid fr (Stream chunks ending) st)
     = cleanup (snd (readLoop R aid chunks
                  ([], addMessage aid (placeholder fr) (st\<lparr>isStreaming := True\<rparr>))))
 \<and> fst (streamChatResume R aid fr (Stream chunks (ReadRejected e)) st) = Inl e
 \<and> fst (streamChatResume R aid fr (Stream chunks Done) st)
     = (if trim (streamText R chunks) = [] then Inl emptyResponse
        else Inr (streamText R chunks))
 \<and> isStreaming (cleanup (stopStreaming st)) = False
 \<and> abortRef (cleanup (stopStreaming st)) = None
 \<and> isStreaming (stopStreaming st) = False
 \<and> abortRef (stopStreaming st) = None"
  by (simp add: streamChatResume_def cleanup_def stopStreaming_def Let_def readLoop_text
           split: ending.splits option.splits)

theorem streamChat_cleanup_witness:
  "isStreaming (snd (streamChatResume exRuntime (Some ''c1'') exFresh
      (Stream [''data: {oops''] (ReadRejected (mkError ''aborted''))) exState)) = False
 \<and> abortRef (snd (streamChatResume exRuntime (Some ''c1'') exFresh
      (Stream [''data: {oops''] (ReadRejected (mkError ''aborted''))) exState)) = None
 \<and> fst (streamChatResume exRuntime (Some ''c1'') exFresh
      (Stream [''data: {oops''] (ReadRejected (mkError ''aborted''))) exState)
     = Inl (mkError ''aborted'')
 \<and> isStreaming (snd (streamChatResume exRuntime (Some ''c1'') exFresh
      (Stream [''data: {oops''] Done) exState)) = False
 \<and> abortRef (snd (streamChatResume exRuntime (Some ''c1'') exFresh
      (Stream [''data: {oops''] Done) exState)) = None
 \<and> isStreaming (stopStreaming exStreaming) = False
 \<and> abortRef (stopStreaming exStreaming) = None"
  using streamChat_cleanup [where R = exRuntime and aid = "Some ''c1''" and fr = exFresh
      and chunks = "[''data: {oops'']" and ending = "ReadRejected (mkError ''aborted'')"
      and e = "mkError ''aborted''" and st = exState]
    streamChat_cleanup [where R = exRuntime and aid = "Some ''c1''" and fr = exFresh
      and chunks = "[''data: {oops'']" and ending = Done and st = exState]
    streamChat_cleanup [where st = exStreaming]
  by blast

section \<open>A stream without text\<close>

text \<open>
  Claim C3. When a send passes its guards, the response streams to its end and the
  chunks add no text to the accumulator, \<open>streamChat\<close> fails with the error
  \<open>Empty response from model\<close>, and the active conversation ends with the new user
  message, the placeholder assistant message with empty content, and an assistant
  message whose content is the error notice with that text.
\<close>

theorem handleSend_empty_response:
  assumes idle: "\<not> isStreaming st"
    and nonblank: "trim (case customContent of Some s \<Rightarrow> s | None \<Rightarrow> inputMessage st) \<noteq> []"
    and key: "apiKey (modelConfig st) \<noteq> []"
    and model: "selectedModel (modelConfig st) \<noteq> []"
    and active: "activeChat st = Some c"
    and empty: "streamText R chunks = []"
  shows "fst (readLoop R (activeChatId st) chunks ([], s)) = []
       \<and> fst (streamChatResume R (activeChatId st) fr (Stream chunks Done) s) = Inl emptyResponse
       \<and> message emptyResponse = ''Empty response from model''
       \<and> (list_all isSpace (streamText R chunks') \<longrightarrow>
            fst (streamChatResume R (activeChatId st) fr (Stream chunks' Done) s)
              = Inl (Err ''Empty response from model'' ''Error: Empty response from model''))
       \<and> (\<not> list_all isSpace (streamText R chunks') \<longrightarrow>
            fst (streamChatResume R (activeChatId st) fr (Stream chunks' Done) s)
              = Inr (streamText R chunks'))
       \<and> activeChat (handleSend R customContent customAttachments fr (Stream chunks Done) st)
           = Some (c\<lparr>messages := messages c
                 @ [\<lparr>msg_id = userId fr, role = User,
                     content = trim (case customContent of Some s \<Rightarrow> s | None \<Rightarrow> inputMessage st),
                     timestamp = userTime fr,
                     attachments = Some (case customAttachments of
                                           Some as \<Rightarrow> as | None \<Rightarrow> composerAttachments st)\<rparr>,
                    \<lparr>msg_id = asstId fr, role = Assistant, content = [],
                     timestamp = asstTime fr, attachments = None\<rparr>,
                    \<lparr>msg_id = errId fr, role = Assistant,
                     content = ''## Error\<newline>\<newline>Empty response from model\<newline>\<newline>**Tips**\<newline>- Check API key / model\<newline>- Verify base URL'',
                     timestamp = errTime fr, attachments = None\<rparr>]\<rparr>)"
proof -
  define aid where "aid = activeChatId st"
  define tx where "tx = trim (case customContent of Some s \<Rightarrow> s | None \<Rightarrow> inputMessage st)"
  define userMsg where
    "userMsg = \<lparr>msg_id = userId fr, role = User, content = tx, timestamp = userTime fr,
                attachments = Some (case customAttachments of
                                      Some as \<Rightarrow> as | None \<Rightarrow> composerAttachments st)\<rparr>"
  define st1 where
    "st1 = (addMessage aid userMsg st)\<lparr>inputMessage := [], composerAttachments := []\<rparr>"
  define st2 where "st2 = streamChatStart (ctl fr) (buildPayload st userMsg (messages c)) st1"
  define st3 where "st3 = addMessage aid (placeholder fr) (st2\<lparr>isStreaming := True\<rparr>)"
  define st4 where "st4 = cleanup (snd (readLoop R aid chunks ([], st3)))"
  have start: "handleSendStart customContent customAttachments fr st
               = Awaiting st2 \<lparr>c_aid = aid, c_content = tx, c_title = title c\<rparr>"
    using idle nonblank key model active
    by (simp add: handleSendStart_def Let_def aid_def tx_def userMsg_def st1_def st2_def)
  have resume: "streamChatResume R aid fr (Stream chunks Done) st2 = (Inl emptyResponse, st4)"
    using empty
    by (simp add: streamChatResume_def Let_def readLoop_text st3_def st4_def trim_def)
  have final: "handleSend R customContent customAttachments fr (Stream chunks Done) st
               = addMessage aid (sendError fr emptyResponse) st4"
    by (simp add: handleSend_def start handleSendResume_def resume)
  have chats4: "chats st4 = chats st3"
    using empty by (simp add: st4_def cleanup_def readLoop_silent)
  have id4: "activeChatId st4 = aid"
    by (simp add: st4_def cleanup_def activeChatId_readLoop st3_def addMessage_def st2_def
          streamChatStart_def st1_def aid_def)
  have f0: "find (\<lambda>c. Some (chat_id c) = aid) (chats st) = Some c"
    using active by (simp add: activeChat_def aid_def)
  have f1: "find (\<lambda>c. Some (chat_id c) = aid) (chats st1) = Some (c\<lparr>messages := messages c @ [userMsg]\<rparr>)"
    using f0 find_addMessage [of aid userMsg st] by (simp add: st1_def addMessage_def)
  have f3: "find (\<lambda>c. Some (chat_id c) = aid) (chats st3)
            = Some (c\<lparr>messages := messages c @ [userMsg, placeholder fr]\<rparr>)"
    using f1 find_addMessage [of aid "placeholder fr" "st2\<lparr>isStreaming := True\<rparr>"]
    by (simp add: st3_def st2_def streamChatStart_def)
  have f5: "find (\<lambda>c. Some (chat_id c) = aid) (chats (addMessage aid (sendError fr emptyResponse) st4))
            = Some (c\<lparr>messages := messages c @ [userMsg, placeholder fr, sendError fr emptyResponse]\<rparr>)"
    using f3 chats4 find_addMessage [of aid "sendError fr emptyResponse" st4] by simp
  have "activeChat (handleSend R customContent customAttachments fr (Stream chunks Done) st)
        = Some (c\<lparr>messages := messages c @ [userMsg, placeholder fr, sendError fr emptyResponse]\<rparr>)"
    using f5 id4 by (simp add: final activeChat_def addMessage_def)
  moreover have "fst (streamChatResume R (activeChatId st) fr (Stream chunks Done) s) = Inl emptyResponse"
    using empty by (simp add: streamChatResume_def Let_def readLoop_text trim_def)
  moreover have "fst (readLoop R (activeChatId st) chunks ([], s)) = []"
    using empty by (simp add: readLoop_text)
  moreover have "fst (streamChatResume R (activeChatId st) fr (Stream chunks' Done) s)
      = (if list_all isSpace (streamText R chunks')
         then Inl (Err ''Empty response from model'' ''Error: Empty response from model'')
         else Inr (streamText R chunks'))"
    by (simp add: streamChatResume_def Let_def readLoop_text trim_empty_iff emptyResponse_def
          mkError_def)
  ultimately show ?thesis
    by (simp add: userMsg_def tx_def emptyResponse_def mkError_def placeholder_def sendError_def)
qed

theorem handleSend_empty_response_witness:
  "\<not> isStreaming exState
 \<and> trim ''  hi '' = ''hi''
 \<and> activeChat exState = Some exChat
 \<and> streamText exRuntime [''event: ping\<newline>data: {oops'', ''\<newline>data: [DONE]\<newline>''] = []
 \<and> streamText exRuntime [''data: {\"choices\":[{\"delta\":{\"content\":\"Hi\"}}]}''] = ''Hi''
 \<and> fst (streamChatResume exRuntime (Some ''c1'') exFresh
       (Stream [''data: {\"choices\":[{\"delta\":{\"content\":\"Hi\"}}]}''] Done) exState) = Inr ''Hi''
 \<and> activeChat (handleSend exRuntime (Some ''  hi '') None exFresh
       (Stream [''event: ping\<newline>data: {oops'', ''\<newline>data: [DONE]\<newline>''] Done) exState)
     = Some \<lparr>chat_id = ''c1'', title = ''New Chat'',
         messages =
           [\<lparr>msg_id = ''u1'', role = User, content = ''hi'', timestamp = 1,
             attachments = Some []\<rparr>,
            \<lparr>msg_id = ''a1'', role = Assistant, content = [], timestamp = 2,
             attachments = None\<rparr>,
            \<lparr>msg_id = ''e1'', role = Assistant,
             content = ''## Error\<newline>\<newline>Empty response from model\<newline>\<newline>**Tips**\<newline>- Check API key / model\<newline>- Verify base URL'',
             timestamp = 3, attachments = None\<rparr>]\<rparr>"
proof -
  have h1: "\<not> isStreaming exState"
    by (simp add: exState_def)
  have u: "trim ''  hi '' = ''hi''"
    by (simp add: trim_def isSpace_def)
  have h2: "trim (case Some ''  hi '' of Some s \<Rightarrow> s | None \<Rightarrow> inputMessage exState) \<noteq> []"
    by (simp add: u)
  have h3: "apiKey (modelConfig exState) \<noteq> []"
    by (simp add: exState_def exConfig_def)
  have h4: "selectedModel (modelConfig exState) \<noteq> []"
    by (simp add: exState_def exConfig_def)
  have h5: "activeChat exState = Some exChat"
    by (simp add: activeChat_def exState_def exChat_def)
  have h6: "streamText exRuntime [''event: ping\<newline>data: {oops'', ''\<newline>data: [DONE]\<newline>''] = []"
    by (simp add: streamText_def frameText_def matchData_def isSpace_def isLineTerminator_def
          exRuntime_oops)
  have h7: "streamText exRuntime [''data: {\"choices\":[{\"delta\":{\"content\":\"Hi\"}}]}''] = ''Hi''"
    by (simp add: streamText_def frameText_def matchData_def isSpace_def isLineTerminator_def
          exRuntime_frame exFrame_def deltaOf_def deltaText_def)
  have h8: "\<not> list_all isSpace ''Hi''"
    by (simp add: isSpace_def)
  show ?thesis
    using handleSend_empty_response [OF h1 h2 h3 h4 h5 h6, where customAttachments = None
        and fr = exFresh and s = exState
        and chunks' = "[''data: {\"choices\":[{\"delta\":{\"content\":\"Hi\"}}]}'']"]
      h1 h5 h6 h7 h8 u
    by (simp add: exFresh_def exState_def exChat_def)
qed

section \<open>Content of the payload messages\<close>

lemma buildPayload_order:
  "map pm_role (p_messages (buildPayload st userMsg history))
     = System # map role history @ [User]"
  by (simp add: buildPayload_def Let_def historyEntry_def comp_def)

lemma buildPayload_user_content:
  "pm_content (last (p_messages (buildPayload st userMsg history)))
     = (let atts = (case attachments userMsg of Some as \<Rightarrow> as | None \<Rightarrow> [])
        in if list_ex isImage atts
           then Parts (TextPart (content userMsg) # map (\<lambda>a. ImageUrlPart (case dataUrl a of Some u \<Rightarrow> u | None \<Rightarrow> [])) (filter isImage atts))
           else Plain (content userMsg))"
  by (simp add: buildPayload_def Let_def imageParts_def)

text \<open>
  Claim C4. The payload lists the system message, the history and the new user message
  in that order, and the new user message has a list of parts exactly when it carries an
  image (the two lemmas above). A message of the history is treated otherwise: the user
  message \<open>see file\<close>, whose only attachment is a text file, is sent as a plain
  string when it is the new message, and as a list holding one text part when it is part
  of the history.
\<close>

theorem buildPayload_file_only_history:
  "\<not> list_ex isImage [exFile]
 \<and> pm_content (last (p_messages (buildPayload exState exFileMsg []))) = Plain ''see file''
 \<and> map pm_content (p_messages (buildPayload exState exUser [exFileMsg]))
     = [Plain (STYLE_PROMPTS Claude), Parts [TextPart ''see file''], Plain ''hi'']"
  by (simp add: buildPayload_def Let_def historyEntry_def imageParts_def isImage_def
        exFile_def exFileMsg_def exUser_def exState_def systemPrompt_def trim_def)

section \<open>Export followed by import\<close>


















section \<open>What the import accepts\<close>




section \<open>Editing a message\<close>

lemma find_first:
  "k < length xs \<Longrightarrow> P (xs ! k) \<Longrightarrow> list_all (\<lambda>x. \<not> P x) (take k xs) \<Longrightarrow>
   find P xs = Some (xs ! k) \<and> findIndex P xs = Some k"
proof (induction xs arbitrary: k)
  case Nil
  then show ?case by simp
next
  case (Cons x xs)
  show ?case
  proof (cases k)
    case 0
    with Cons.prems show ?thesis by simp
  next
    case (Suc j)
    with Cons.prems have "j < length xs" and "P (xs ! j)"
      and "list_all (\<lambda>x. \<not> P x) (take j xs)" and "\<not> P x"
      by simp_all
    with Cons.IH [of j] Suc show ?thesis by simp
  qed
qed

text \<open>
  Claim C7, as stated: in the conversation of three messages whose first and third
  carry the same id, editing the message at index 2 leaves no message, not the first
  two, and puts the text of the first message into the composer, not that of the third.
\<close>

theorem handleEditMessage_repeated_id:
  "activeChat exRepeated = Some (exChat\<lparr>messages := [exFirst, exReply, exThird]\<rparr>)
 \<and> msg_id ([exFirst, exReply, exThird] ! 2) = ''u1''
 \<and> activeChat (handleEditMessage ''u1'' exRepeated) = Some (exChat\<lparr>messages := []\<rparr>)
 \<and> take 2 [exFirst, exReply, exThird] \<noteq> []
 \<and> inputMessage (handleEditMessage ''u1'' exRepeated) = ''first''
 \<and> content ([exFirst, exReply, exThird] ! 2) = ''third''
 \<and> composerAttachments (handleEditMessage ''u1'' exRepeated) = []
 \<and> attachments ([exFirst, exReply, exThird] ! 2) = Some [exFile]"
  by (simp add: handleEditMessage_def activeChat_def exRepeated_def exState_def exChat_def
        exFirst_def exReply_def exThird_def)

text \<open>
  Claim C7, amended. In the active conversation, for an index \<open>k\<close> whose message id
  no earlier message carries, editing the message at index \<open>k\<close> leaves the first
  \<open>k\<close> messages in the conversation and puts the text and the attachments of that
  message into the composer.
\<close>

theorem handleEditMessage_truncates:
  assumes "activeChat st = Some c"
    and "k < length (messages c)"
    and "list_all (\<lambda>x. msg_id x \<noteq> msg_id (messages c ! k)) (take k (messages c))"
  shows "activeChat (handleEditMessage (msg_id (messages c ! k)) st)
           = Some (c\<lparr>messages := take k (messages c)\<rparr>)
       \<and> inputMessage (handleEditMessage (msg_id (messages c ! k)) st)
           = content (messages c ! k)
       \<and> composerAttachments (handleEditMessage (msg_id (messages c ! k)) st)
           = (case attachments (messages c ! k) of Some as \<Rightarrow> as | None \<Rightarrow> [])"
proof -
  let ?mid = "msg_id (messages c ! k)"
  let ?g = "\<lambda>c. case findIndex (\<lambda>x. msg_id x = ?mid) (messages c) of
                   None \<Rightarrow> c | Some idx \<Rightarrow> c\<lparr>messages := take idx (messages c)\<rparr>"
  have both: "find (\<lambda>x. msg_id x = ?mid) (messages c) = Some (messages c ! k)
              \<and> findIndex (\<lambda>x. msg_id x = ?mid) (messages c) = Some k"
    using assms(2,3) by (intro find_first) simp_all
  have keep: "chat_id (?g d) = chat_id d" for d
    by (simp split: option.splits)
  have edit: "handleEditMessage ?mid st
              = st\<lparr>inputMessage := content (messages c ! k),
                   composerAttachments := (case attachments (messages c ! k) of
                                             Some as \<Rightarrow> as | None \<Rightarrow> []),
                   chats := map (\<lambda>d. if Some (chat_id d) = activeChatId st then ?g d else d)
                              (chats st)\<rparr>"
    using assms(1) both by (simp add: handleEditMessage_def)
  have "activeChat (handleEditMessage ?mid st) = map_option ?g (activeChat st)"
    unfolding edit activeChat_def using find_map_active [of ?g "activeChatId st" "chats st", OF keep]
    by simp
  then have "activeChat (handleEditMessage ?mid st) = Some (c\<lparr>messages := take k (messages c)\<rparr>)"
    using assms(1) both by simp
  then show ?thesis by (simp add: edit)
qed

theorem handleEditMessage_truncates_witness:
  "activeChat exLong = Some (exChat\<lparr>messages := [exUser, exReply, exFileMsg]\<rparr>)
 \<and> list_all (\<lambda>x. msg_id x \<noteq> ''u0'') (take 2 [exUser, exReply, exFileMsg])
 \<and> activeChat (handleEditMessage ''u0'' exLong) = Some (exChat\<lparr>messages := [exUser, exReply]\<rparr>)
 \<and> inputMessage (handleEditMessage ''u0'' exLong) = ''see file''
 \<and> composerAttachments (handleEditMessage ''u0'' exLong) = [exFile]
 \<and> activeChat (handleEditMessage ''a0'' exRepeated) = Some (exChat\<lparr>messages := [exFirst]\<rparr>)
 \<and> inputMessage (handleEditMessage ''a0'' exRepeated) = ''hello''"
proof -
  let ?c = "exChat\<lparr>messages := [exUser, exReply, exFileMsg]\<rparr>"
  let ?r = "exChat\<lparr>messages := [exFirst, exReply, exThird]\<rparr>"
  have a: "activeChat exLong = Some ?c"
    by (simp add: activeChat_def exLong_def exState_def exChat_def)
  have k: "2 < length (messages ?c)" by simp
  have d: "list_all (\<lambda>x. msg_id x \<noteq> msg_id (messages ?c ! 2)) (take 2 (messages ?c))"
    by (simp add: exUser_def exReply_def exFileMsg_def)
  have a': "activeChat exRepeated = Some ?r"
    by (simp add: activeChat_def exRepeated_def exState_def exChat_def)
  have k': "1 < length (messages ?r)" by simp
  have d': "list_all (\<lambda>x. msg_id x \<noteq> msg_id (messages ?r ! 1)) (take 1 (messages ?r))"
    by (simp add: exFirst_def exReply_def)
  show ?thesis
    using a d handleEditMessage_truncates [OF a k d] handleEditMessage_truncates [OF a' k' d']
    by (simp add: exFileMsg_def exReply_def)
qed

section \<open>Regenerating the last answer\<close>









section \<open>A second send while a request is in flight\<close>

text \<open>
  Both screens guard their send handler with a flag. The single-conversation screen
  sets \<open>isLoading\<close> before it calls \<open>fetch\<close>; the multi-chat screen sets
  \<open>isStreaming\<close> in \<open>streamChat\<close> after \<open>fetch\<close> has answered, so the state
  in which \<open>handleSend\<close> awaits the response has the flag still false.
\<close>

lemma handleSendStart_guard: "isStreaming st \<Longrightarrow> handleSendStart cc ca fr st = Returned st"
  by (simp add: handleSendStart_def)

lemma sendMessageStart_guard: "s_isLoading st \<Longrightarrow> sendMessageStart clock st = st"
  by (simp add: sendMessageStart_def)

lemma sendMessageStart_sets_flag:
  "s_requests (sendMessageStart clock st) \<noteq> s_requests st \<Longrightarrow>
   s_isLoading (sendMessageStart clock st)"
  by (simp add: sendMessageStart_def Let_def split: if_splits)

lemma handleSendStart_leaves_flag:
  "handleSendStart cc ca fr st = Awaiting st1 cl \<Longrightarrow> \<not> isStreaming st1"
  by (auto simp: handleSendStart_def Let_def streamChatStart_def addMessage_def
           split: if_splits option.splits)

lemma exPending_eq:
  "exPending = exState\<lparr>chats := [exChat\<lparr>messages := [exUser]\<rparr>], inputMessage := [],
                        abortRef := Some (Controller 0),
                        requests := [\<lparr>url = ''http://h/chat/completions'', bearer = ''k'',
                                      body = buildPayload exState exUser []\<rparr>]\<rparr>"
  by (simp add: exPending_def handleSendStart_def Let_def exState_def exConfig_def exChat_def
        exFresh_def exUser_def trim_def isSpace_def activeChat_def addMessage_def
        streamChatStart_def stripSlash_def)

lemma sendMessage_guarded:
  "s_isLoading (sendMessageStart 7 exSimple)
 \<and> length (s_requests (sendMessageStart 7 exSimple)) = 1
 \<and> sendMessageStart 8 ((sendMessageStart 7 exSimple)\<lparr>s_inputMessage := ''more''\<rparr>)
     = (sendMessageStart 7 exSimple)\<lparr>s_inputMessage := ''more''\<rparr>"
  by (simp add: sendMessageStart_def Let_def exSimple_def trim_def isSpace_def)

text \<open>
  Claim C9. On the multi-chat screen a first send is awaiting the response: one request
  is out and \<open>isStreaming\<close> is false. The user types \<open>more\<close> and sends again:
  the handler does not return early, a second request goes out, the conversation gets a
  second user message, and \<open>abortRef\<close> holds the second controller.
\<close>

theorem handleSend_while_awaiting_response:
  "awaits (handleSendStart None None exFresh exState)
 \<and> length (requests exPending) = 1
 \<and> \<not> isStreaming exPending
 \<and> awaits (handleSendStart None None exFresh2 (exPending\<lparr>inputMessage := ''more''\<rparr>))
 \<and> length (requests (stateOf (handleSendStart None None exFresh2
             (exPending\<lparr>inputMessage := ''more''\<rparr>)))) = 2
 \<and> map (map content \<circ> messages) (chats (stateOf (handleSendStart None None exFresh2
             (exPending\<lparr>inputMessage := ''more''\<rparr>)))) = [[''hi'', ''more'']]
 \<and> abortRef (stateOf (handleSendStart None None exFresh2
             (exPending\<lparr>inputMessage := ''more''\<rparr>))) = Some (Controller 1)"
proof -
  have first: "awaits (handleSendStart None None exFresh exState)"
    by (simp add: handleSendStart_def Let_def exState_def exConfig_def exChat_def
          trim_def isSpace_def activeChat_def)
  have second: "handleSendStart None None exFresh2 (exPending\<lparr>inputMessage := ''more''\<rparr>)
      = Awaiting
          (exPending\<lparr>chats := [exChat\<lparr>messages := [exUser,
                        \<lparr>msg_id = ''u2'', role = User, content = ''more'', timestamp = 4,
                         attachments = Some []\<rparr>]\<rparr>],
                     inputMessage := [], composerAttachments := [],
                     abortRef := Some (Controller 1),
                     requests := requests exPending
                       @ [\<lparr>url = ''http://h/chat/completions'', bearer = ''k'',
                            body = buildPayload (exPending\<lparr>inputMessage := ''more''\<rparr>)
                                     \<lparr>msg_id = ''u2'', role = User, content = ''more'',
                                      timestamp = 4, attachments = Some []\<rparr> [exUser]\<rparr>]\<rparr>)
          \<lparr>c_aid = Some ''c1'', c_content = ''more'', c_title = ''New Chat''\<rparr>"
    unfolding exPending_eq
    by (simp add: handleSendStart_def Let_def exState_def exConfig_def exChat_def
        exFresh2_def trim_def isSpace_def activeChat_def addMessage_def
        streamChatStart_def stripSlash_def)
  show ?thesis
    unfolding second using first
    by (simp add: exPending_eq exState_def exChat_def exUser_def)
qed

section \<open>Deleting the only conversation\<close>

text \<open>
  Claim C10. When the conversation list holds one conversation and it is the active one,
  deleting it leaves the list empty, leaves the active identifier on the deleted
  conversation, and the lookup of the active conversation finds nothing.
\<close>

theorem deleteChat_sole:
  assumes "chats st = [c]" and "activeChatId st = Some (chat_id c)"
  shows "chats (deleteChat (chat_id c) st) = []
       \<and> activeChatId (deleteChat (chat_id c) st) = Some (chat_id c)
       \<and> activeChat (deleteChat (chat_id c) st) = None"
  using assms by (simp add: deleteChat_def activeChat_def)

theorem deleteChat_sole_witness:
  "chats exState = [exChat] \<and> activeChatId exState = Some (chat_id exChat)
   \<and> chats (deleteChat (chat_id exChat) exState) = []
   \<and> activeChatId (deleteChat (chat_id exChat) exState) = Some ''c1''
   \<and> activeChat (deleteChat (chat_id exChat) exState) = None"
  using deleteChat_sole [of exState exChat] by (simp add: exState_def exChat_def)

end
